theory Spec2Isabelle
  imports Complex_Main
begin

section \<open>JavaScript numbers\<close>

text \<open>
  The component \<^verbatim>\<open>GridLines\<close> (record viewer, \<^verbatim>\<open>GridLines.tsx\<close>) computes with
  JavaScript numbers. A number is modelled as an exact real, or one of the three special
  values that the arithmetic of the language produces: division by zero gives an
  infinity or \<^verbatim>\<open>NaN\<close> and never raises. Rounding to 64-bit precision, overflow of a
  finite result, underflow to zero and the sign of zero are not modelled (a zero divisor
  is read as \<^verbatim>\<open>+0\<close>). The properties stated below are the ones on which the model
  and the 64-bit arithmetic agree: the selection compares the counts that the component
  itself computes, the scenarios are exact in 64 bits, and the property of negative
  durations is stated from the smallest normal magnitude on, where no quotient by an
  option underflows. Bounds on the rounded column width and on its multiples (that the
  width exceeds 100, that a line stays within the total width) hold in exact arithmetic
  only, are decided by rounding in the component, and are left out.
\<close>

datatype jsnum = Fin real | PosInf | NegInf | NaN

text \<open>The operator \<^verbatim>\<open>/\<close>.\<close>

fun js_div :: "jsnum \<Rightarrow> jsnum \<Rightarrow> jsnum" where
  "js_div (Fin a) (Fin b) =
     (if b \<noteq> 0 then Fin (a / b)
      else if 0 < a then PosInf else if a < 0 then NegInf else NaN)"
| "js_div (Fin a) PosInf = Fin 0"
| "js_div (Fin a) NegInf = Fin 0"
| "js_div PosInf (Fin b) = (if 0 \<le> b then PosInf else NegInf)"
| "js_div NegInf (Fin b) = (if 0 \<le> b then NegInf else PosInf)"
| "js_div _ _ = NaN"

text \<open>The operator \<^verbatim>\<open>*\<close>.\<close>

fun js_mul :: "jsnum \<Rightarrow> jsnum \<Rightarrow> jsnum" where
  "js_mul (Fin a) (Fin b) = Fin (a * b)"
| "js_mul (Fin a) PosInf = (if 0 < a then PosInf else if a < 0 then NegInf else NaN)"
| "js_mul (Fin a) NegInf = (if 0 < a then NegInf else if a < 0 then PosInf else NaN)"
| "js_mul PosInf (Fin b) = (if 0 < b then PosInf else if b < 0 then NegInf else NaN)"
| "js_mul NegInf (Fin b) = (if 0 < b then NegInf else if b < 0 then PosInf else NaN)"
| "js_mul PosInf PosInf = PosInf"
| "js_mul PosInf NegInf = NegInf"
| "js_mul NegInf PosInf = NegInf"
| "js_mul NegInf NegInf = PosInf"
| "js_mul _ _ = NaN"

text \<open>The operator \<^verbatim>\<open>+\<close> on numbers.\<close>

fun js_add :: "jsnum \<Rightarrow> jsnum \<Rightarrow> jsnum" where
  "js_add (Fin a) (Fin b) = Fin (a + b)"
| "js_add (Fin a) PosInf = PosInf"
| "js_add (Fin a) NegInf = NegInf"
| "js_add PosInf (Fin b) = PosInf"
| "js_add NegInf (Fin b) = NegInf"
| "js_add PosInf PosInf = PosInf"
| "js_add NegInf NegInf = NegInf"
| "js_add _ _ = NaN"

text \<open>The operator \<^verbatim>\<open><\<close>: every comparison with \<^verbatim>\<open>NaN\<close> is false.\<close>

fun js_less :: "jsnum \<Rightarrow> jsnum \<Rightarrow> bool" where
  "js_less (Fin a) (Fin b) = (a < b)"
| "js_less (Fin a) PosInf = True"
| "js_less NegInf (Fin b) = True"
| "js_less NegInf PosInf = True"
| "js_less _ _ = False"

text \<open>The operator \<^verbatim>\<open><=\<close>; the component does not use it, the properties below do.\<close>

fun js_le :: "jsnum \<Rightarrow> jsnum \<Rightarrow> bool" where
  "js_le (Fin a) (Fin b) = (a \<le> b)"
| "js_le (Fin a) PosInf = True"
| "js_le NegInf (Fin b) = True"
| "js_le NegInf PosInf = True"
| "js_le PosInf PosInf = True"
| "js_le NegInf NegInf = True"
| "js_le _ _ = False"

text \<open>\<^verbatim>\<open>Math.floor\<close>: the infinities and \<^verbatim>\<open>NaN\<close> are returned as they are.\<close>

fun Math_floor :: "jsnum \<Rightarrow> jsnum" where
  "Math_floor (Fin a) = Fin (of_int \<lfloor>a\<rfloor>)"
| "Math_floor x = x"

section \<open>Arrays\<close>

text \<open>
  \<^verbatim>\<open>Array.prototype.findIndex\<close>: the index of the first element that satisfies the
  predicate, and \<open>-1\<close> when there is none.
\<close>

fun findIndex :: "('a \<Rightarrow> bool) \<Rightarrow> 'a list \<Rightarrow> int" where
  "findIndex P [] = - 1"
| "findIndex P (x # xs) =
     (if P x then 0
      else (let r = findIndex P xs in if r = - 1 then - 1 else r + 1))"

datatype js_error = RangeError

text \<open>
  \<^verbatim>\<open>Array(len)\<close> with one numeric argument: the language raises
  \<^verbatim>\<open>RangeError: Invalid array length\<close> unless \<open>len\<close> is an integer between \<open>0\<close> and
  \<open>2^32 - 1\<close>. The array holds \<open>len\<close> empty slots that \<^verbatim>\<open>fill(undefined)\<close> fills, so
  it is represented by its length.
\<close>

definition Array_js :: "jsnum \<Rightarrow> js_error + nat" where
  "Array_js len =
     (case len of
        Fin x \<Rightarrow>
          if 0 \<le> x \<and> x \<le> 4294967295 \<and> x = of_int \<lfloor>x\<rfloor> then Inr (nat \<lfloor>x\<rfloor>)
          else Inl RangeError
      | _ \<Rightarrow> Inl RangeError)"

section \<open>The component\<close>

definition MIN_WIDTH :: jsnum where
  "MIN_WIDTH = Fin 100"

definition SECOND :: jsnum where
  "SECOND = Fin 1000"

definition MINUTE :: jsnum where
  "MINUTE = js_mul (Fin 60) SECOND"

definition TIME_OPTIONS :: "jsnum list" where
  "TIME_OPTIONS =
     [Fin 100, Fin 500, js_mul (Fin 1) SECOND, js_mul (Fin 5) SECOND,
      js_mul (Fin 10) SECOND, js_mul (Fin 30) SECOND, MINUTE]"

text \<open>
  The body of \<^verbatim>\<open>GridLines\<close> binds six constants in turn; each is a function of the two
  props here, under the name it has in the source.
\<close>

definition maxCols :: "jsnum \<Rightarrow> jsnum" where
  "maxCols totalWidth = Math_floor (js_div totalWidth MIN_WIDTH)"

definition timeOptionCols :: "jsnum \<Rightarrow> jsnum list" where
  "timeOptionCols totalTime =
     map (\<lambda>timeOption. Math_floor (js_div totalTime timeOption)) TIME_OPTIONS"

definition timeOptionIndex :: "jsnum \<Rightarrow> jsnum \<Rightarrow> int" where
  "timeOptionIndex totalWidth totalTime =
     findIndex (\<lambda>c. js_less c (maxCols totalWidth)) (timeOptionCols totalTime)"

text \<open>
  \<^verbatim>\<open>TIME_OPTIONS[timeOptionIndex]\<close> is read only when the index is not \<open>-1\<close>; it is then
  the index of an element of \<open>timeOptionCols\<close>, which is as long as \<open>TIME_OPTIONS\<close>
  (lemma \<open>timeOptionIndex_range\<close>), so the read is in range.
\<close>

definition timeOption :: "jsnum \<Rightarrow> jsnum \<Rightarrow> jsnum" where
  "timeOption totalWidth totalTime =
     (let i = timeOptionIndex totalWidth totalTime
      in if i \<noteq> - 1 then TIME_OPTIONS ! nat i else Fin 1)"

definition numCols :: "jsnum \<Rightarrow> jsnum \<Rightarrow> jsnum" where
  "numCols totalWidth totalTime =
     Math_floor (js_div totalTime (timeOption totalWidth totalTime))"

definition widthPerCol :: "jsnum \<Rightarrow> jsnum \<Rightarrow> jsnum" where
  "widthPerCol totalWidth totalTime =
     js_mul (js_div (timeOption totalWidth totalTime) totalTime) totalWidth"

text \<open>
  One rendered column: the \<^verbatim>\<open>left\<close> of the one-pixel line, the \<^verbatim>\<open>left\<close> of the label,
  and the two children of the label, a number and the text \<^verbatim>\<open>ms\<close>. The style
  attributes that are the same in every column are left out.
\<close>

record column =
  line_left :: jsnum
  label_left :: jsnum
  label_value :: jsnum
  label_unit :: string

definition render_column :: "jsnum \<Rightarrow> jsnum \<Rightarrow> nat \<Rightarrow> column" where
  "render_column totalWidth totalTime i =
     \<lparr> line_left = js_mul (js_add (Fin (real i)) (Fin 1)) (widthPerCol totalWidth totalTime),
       label_left =
         js_add (js_mul (js_add (Fin (real i)) (Fin 1)) (widthPerCol totalWidth totalTime))
           (Fin 4),
       label_value = js_mul (js_add (Fin (real i)) (Fin 1)) (timeOption totalWidth totalTime),
       label_unit = ''ms'' \<rparr>"

text \<open>
  The component: the columns in order, or the error that \<^verbatim>\<open>Array(numCols)\<close> raises.
\<close>

definition GridLines :: "jsnum \<Rightarrow> jsnum \<Rightarrow> js_error + column list" where
  "GridLines totalWidth totalTime =
     (case Array_js (numCols totalWidth totalTime) of
        Inl e \<Rightarrow> Inl e
      | Inr n \<Rightarrow> Inr (map (render_column totalWidth totalTime) [0..<n]))"

section \<open>The fit test\<close>

text \<open>
  An option \<open>t\<close> fits when the number of columns it gives over the whole duration is
  strictly less than the number of columns of minimum width that the width holds. This
  is the test of the specification, written with the constant \<open>100\<close>; the component
  computes it through \<open>timeOptionCols\<close>, \<open>maxCols\<close> and \<open>MIN_WIDTH\<close>.
\<close>

definition fits :: "jsnum \<Rightarrow> jsnum \<Rightarrow> jsnum \<Rightarrow> bool" where
  "fits totalWidth totalTime t =
     js_less (Math_floor (js_div totalTime t)) (Math_floor (js_div totalWidth (Fin 100)))"

section \<open>Searching the option list\<close>

lemma TIME_OPTIONS_eq:
  "TIME_OPTIONS = [Fin 100, Fin 500, Fin 1000, Fin 5000, Fin 10000, Fin 30000, Fin 60000]"
  by (simp add: TIME_OPTIONS_def SECOND_def MINUTE_def)

text \<open>The equations that evaluate the component on given props.\<close>

lemmas GridLines_eval =
  GridLines_def Array_js_def render_column_def widthPerCol_def numCols_def timeOption_def
  timeOptionIndex_def timeOptionCols_def maxCols_def MIN_WIDTH_def TIME_OPTIONS_eq

lemma findIndex_lower: "- 1 \<le> findIndex P xs"
  by (induction xs) (auto simp: Let_def)

lemma findIndex_none: "findIndex P xs = - 1 \<longleftrightarrow> (\<forall>x\<in>set xs. \<not> P x)"
proof (induction xs)
  case Nil
  show ?case by simp
next
  case (Cons x xs)
  have "findIndex P xs + 1 \<noteq> - 1"
    using findIndex_lower [of P xs] by arith
  with Cons show ?case by (auto simp: Let_def)
qed

lemma findIndex_range:
  "findIndex P xs \<noteq> - 1 \<Longrightarrow> 0 \<le> findIndex P xs \<and> nat (findIndex P xs) < length xs"
proof (induction xs)
  case Nil
  then show ?case by simp
next
  case (Cons x xs)
  show ?case
  proof (cases "P x")
    case True
    then show ?thesis by simp
  next
    case False
    with Cons.prems have r: "findIndex P xs \<noteq> - 1"
      by (auto simp: Let_def split: if_splits)
    with Cons.IH have "0 \<le> findIndex P xs" "nat (findIndex P xs) < length xs"
      by simp_all
    with False r show ?thesis
      by (simp add: Let_def nat_add_distrib)
  qed
qed

text \<open>
  Reading the option at the index found among the column counts is the same as taking
  the first option whose column count passes the test.
\<close>

lemma findIndex_map_find:
  "(let i = findIndex P (map f xs) in if i \<noteq> - 1 then xs ! nat i else d) =
   (case find (\<lambda>x. P (f x)) xs of Some t \<Rightarrow> t | None \<Rightarrow> d)"
proof (induction xs)
  case Nil
  show ?case by simp
next
  case (Cons x xs)
  show ?case
  proof (cases "P (f x)")
    case True
    then show ?thesis by simp
  next
    case False
    show ?thesis
    proof (cases "findIndex P (map f xs) = - 1")
      case True
      with False Cons show ?thesis by (simp add: Let_def)
    next
      case neq: False
      then have "0 \<le> findIndex P (map f xs)"
        using findIndex_range [of P "map f xs"] by simp
      then have "nat (findIndex P (map f xs) + 1) = Suc (nat (findIndex P (map f xs)))"
        by (simp add: nat_add_distrib)
      moreover have "findIndex P (map f xs) + 1 \<noteq> - 1"
        using findIndex_lower [of P "map f xs"] by arith
      ultimately show ?thesis
        using False neq Cons by (simp add: Let_def)
    qed
  qed
qed

lemma timeOptionIndex_range:
  "timeOptionIndex totalWidth totalTime \<noteq> - 1 \<Longrightarrow>
     0 \<le> timeOptionIndex totalWidth totalTime \<and>
     nat (timeOptionIndex totalWidth totalTime) < length TIME_OPTIONS"
  using findIndex_range [of "\<lambda>c. js_less c (maxCols totalWidth)" "timeOptionCols totalTime"]
  by (simp add: timeOptionIndex_def timeOptionCols_def)

lemma timeOption_find:
  "timeOption totalWidth totalTime =
     (case find (fits totalWidth totalTime) TIME_OPTIONS of Some t \<Rightarrow> t | None \<Rightarrow> Fin 1)"
  unfolding timeOption_def timeOptionIndex_def timeOptionCols_def maxCols_def MIN_WIDTH_def
    fits_def
  by (rule findIndex_map_find)

lemma find_fits: "find P xs = Some t \<Longrightarrow> P t \<and> t \<in> set xs"
  by (induction xs) (auto split: if_splits)

lemma find_sorted_least:
  "sorted_wrt R xs \<Longrightarrow> u \<in> set xs \<Longrightarrow> P u \<Longrightarrow> \<exists>t. find P xs = Some t \<and> (t = u \<or> R t u)"
  by (induction xs) auto

lemma find_None_none: "find P xs = None \<longleftrightarrow> (\<forall>x\<in>set xs. \<not> P x)"
  by (induction xs) auto

section \<open>Order and sign\<close>

lemma options_ascending:
  "sorted_wrt js_less [Fin 100, Fin 500, Fin 1000, Fin 5000, Fin 10000, Fin 30000, Fin 60000]"
  by simp

lemma js_less_le: "js_less a b \<Longrightarrow> js_le a b"
  by (cases a; cases b) simp_all

lemma option_le_refl: "t \<in> set TIME_OPTIONS \<Longrightarrow> js_le t t"
  by (auto simp: TIME_OPTIONS_eq)

lemma positive_cases:
  assumes "js_less (Fin 0) x"
  obtains (Fin) r where "x = Fin r" and "0 < r" | (PosInf) "x = PosInf"
  using assms by (cases x) simp_all

lemma negative_cases:
  assumes "js_less x (Fin 0)"
  obtains (Fin) r where "x = Fin r" and "r < 0" | (NegInf) "x = NegInf"
  using assms by (cases x) simp_all

lemma option_positive: "t \<in> set TIME_OPTIONS \<Longrightarrow> \<exists>r. t = Fin r \<and> 0 < r"
  by (auto simp: TIME_OPTIONS_eq)

lemma timeOption_positive: "\<exists>r. timeOption totalWidth totalTime = Fin r \<and> 0 < r"
proof (cases "find (fits totalWidth totalTime) TIME_OPTIONS")
  case None
  then show ?thesis by (simp add: timeOption_find)
next
  case (Some t)
  then show ?thesis
    using find_fits [OF Some] option_positive [of t] by (simp add: timeOption_find)
qed

lemma timeOption_from_list:
  assumes "timeOption totalWidth totalTime \<noteq> Fin 1"
  shows "timeOption totalWidth totalTime \<in> set TIME_OPTIONS \<and>
         fits totalWidth totalTime (timeOption totalWidth totalTime)"
proof (cases "find (fits totalWidth totalTime) TIME_OPTIONS")
  case None
  with assms show ?thesis by (simp add: timeOption_find)
next
  case (Some t)
  then show ?thesis
    using find_fits [OF Some] by (simp add: timeOption_find)
qed

lemma maxCols_mono:
  "js_le w1 w2 \<Longrightarrow>
     js_le (Math_floor (js_div w1 (Fin 100))) (Math_floor (js_div w2 (Fin 100)))"
  by (cases w1; cases w2) (simp_all add: floor_mono divide_right_mono)

lemma js_less_le_trans: "js_less a b \<Longrightarrow> js_le b c \<Longrightarrow> js_less a c"
  by (cases a; cases b; cases c) simp_all

lemma fits_mono: "js_le w1 w2 \<Longrightarrow> fits w1 totalTime t \<Longrightarrow> fits w2 totalTime t"
  unfolding fits_def using js_less_le_trans maxCols_mono by blast

section \<open>Rendering\<close>

lemma Array_js_length: "n \<le> 4294967295 \<Longrightarrow> Array_js (Fin (real n)) = Inr n"
  by (simp add: Array_js_def)

lemma Array_js_negative: "x < 0 \<Longrightarrow> Array_js (Fin x) = Inl RangeError"
  by (simp add: Array_js_def)

lemma GridLines_length:
  "numCols totalWidth totalTime = Fin (real n) \<Longrightarrow> n \<le> 4294967295 \<Longrightarrow>
     GridLines totalWidth totalTime = Inr (map (render_column totalWidth totalTime) [0..<n])"
  by (simp add: GridLines_def Array_js_length)

lemma render_column_nth:
  assumes "1 \<le> i" and "i \<le> n"
  shows "map (render_column totalWidth totalTime) [0..<n] ! (i - 1) =
           \<lparr> line_left = js_mul (Fin (real i)) (widthPerCol totalWidth totalTime),
             label_left =
               js_add (js_mul (Fin (real i)) (widthPerCol totalWidth totalTime)) (Fin 4),
             label_value = js_mul (Fin (real i)) (timeOption totalWidth totalTime),
             label_unit = ''ms'' \<rparr>"
proof -
  from assms have "i - 1 < n" by arith
  moreover from assms(1) have "real (i - 1) + 1 = real i" by simp
  ultimately show ?thesis by (simp add: render_column_def)
qed

lemma numCols_finite:
  assumes "timeOption totalWidth (Fin d) = Fin t" and "0 < t" and "0 \<le> d"
  shows "numCols totalWidth (Fin d) = Fin (real (nat \<lfloor>d / t\<rfloor>))"
proof -
  from assms(2,3) have "0 \<le> \<lfloor>d / t\<rfloor>" by simp
  with assms(1,2) show ?thesis by (simp add: numCols_def)
qed

lemma numCols_infinite: "numCols totalWidth PosInf = PosInf"
  using timeOption_positive [of totalWidth PosInf] by (auto simp: numCols_def)

text \<open>
  A negative duration makes every column count negative, the selected one included, so
  that the array length is rejected. It is stated for durations of magnitude at least
  \<open>2^-1022\<close>, the smallest normal number: the quotient of a smaller one by an option can
  underflow to zero in 64 bits, and a zero length is accepted. A negative width makes
  \<open>maxCols\<close> negative, below every count of a duration that is not negative.
\<close>

lemma normal_negative: "js_le x (Fin (- (1 / 2 ^ 1022))) \<Longrightarrow> js_less x (Fin 0)"
proof (cases x)
  case (Fin r)
  assume "js_le x (Fin (- (1 / 2 ^ 1022)))"
  with Fin have "r \<le> - (1 / 2 ^ 1022)" by simp
  moreover have "(0::real) < 1 / 2 ^ 1022" by simp
  ultimately have "r < 0" by linarith
  with Fin show ?thesis by simp
qed simp_all

lemma negative_time_raises:
  assumes "js_le totalTime (Fin (- (1 / 2 ^ 1022)))"
  shows "GridLines totalWidth totalTime = Inl RangeError"
proof -
  obtain t where t: "timeOption totalWidth totalTime = Fin t" and tpos: "0 < t"
    using timeOption_positive by blast
  from normal_negative [OF assms] show ?thesis
  proof (cases rule: negative_cases)
    case NegInf
    with t tpos show ?thesis by (simp add: GridLines_def numCols_def Array_js_def)
  next
    case (Fin d)
    from Fin(2) tpos have "d / t < 0" by (simp add: field_simps)
    then have "\<lfloor>d / t\<rfloor> < 0" by (simp add: floor_less_iff)
    then have "real_of_int \<lfloor>d / t\<rfloor> < 0" by simp
    from Array_js_negative [OF this] Fin(1) t tpos show ?thesis
      by (simp add: GridLines_def numCols_def)
  qed
qed

lemma negative_width_fits_nothing:
  assumes "js_less totalWidth (Fin 0)" and "0 \<le> d" and "t \<in> set TIME_OPTIONS"
  shows "\<not> fits totalWidth (Fin d) t"
proof -
  from option_positive [OF assms(3)] obtain r where r: "t = Fin r" and rpos: "0 < r"
    by blast
  from assms(2) rpos have c: "0 \<le> \<lfloor>d / r\<rfloor>" by simp
  from assms(1) show ?thesis
  proof (cases rule: negative_cases)
    case NegInf
    with r rpos show ?thesis by (simp add: fits_def)
  next
    case (Fin w)
    from Fin(2) have "w / 100 < 0" by simp
    then have "\<lfloor>w / 100\<rfloor> < 0" by (simp add: floor_less_iff)
    with c have "\<not> \<lfloor>d / r\<rfloor> < \<lfloor>w / 100\<rfloor>" by linarith
    with Fin(1) r rpos show ?thesis by (simp add: fits_def)
  qed
qed

lemma negative_width_fallback:
  assumes "js_less totalWidth (Fin 0)" and "0 \<le> d"
  shows "timeOption totalWidth (Fin d) = Fin 1"
proof -
  have "find (fits totalWidth (Fin d)) TIME_OPTIONS = None"
    using negative_width_fits_nothing [OF assms] by (simp only: find_None_none) blast
  then show ?thesis by (simp add: timeOption_find)
qed

section \<open>Scenarios\<close>

text \<open>
  C8. For \<open>totalWidth = 1000\<close> and \<open>totalTime = 2000\<close> the component computes
  \<open>maxCols = 10\<close>; the option 100 ms would give 20 columns, which is not below 10, the
  option 500 ms gives 4 and is the one selected (index 1), so that \<open>numCols = 4\<close> and
  the column width is 250 pixels.
\<close>

theorem scenario_1000_2000:
  "maxCols (Fin 1000) = Fin 10 \<and>
   timeOptionCols (Fin 2000) = [Fin 20, Fin 4, Fin 2, Fin 0, Fin 0, Fin 0, Fin 0] \<and>
   timeOptionIndex (Fin 1000) (Fin 2000) = 1 \<and>
   timeOption (Fin 1000) (Fin 2000) = Fin 500 \<and>
   numCols (Fin 1000) (Fin 2000) = Fin 4 \<and>
   widthPerCol (Fin 1000) (Fin 2000) = Fin 250"
  by (simp add: GridLines_eval)

text \<open>
  C5. For \<open>totalWidth = 500\<close> and \<open>totalTime = 0\<close> the component returns normally with
  no column at all: \<open>numCols\<close> is 0, no error is raised, and as nothing is rendered no
  element has a \<^verbatim>\<open>NaN\<close> position. (The column width itself is the quotient by zero,
  an infinity, and is used by no element.)
\<close>

theorem scenario_500_0:
  "numCols (Fin 500) (Fin 0) = Fin 0 \<and>
   GridLines (Fin 500) (Fin 0) = Inr [] \<and>
   widthPerCol (Fin 500) (Fin 0) = PosInf"
  by (simp add: GridLines_eval)

section \<open>Selecting the tick interval\<close>

text \<open>
  C1. For a positive width and a positive duration the selected interval is the first
  option of the ascending list 100, 500, 1000, 5000, 10000, 30000, 60000 that fits,
  and 1 when none fits. Whenever some option fits, the selected one fits and is at most
  every option that fits, so the first is also the smallest. The selected interval is
  always an option of the list or the fallback 1.
\<close>

theorem first_fitting_option:
  assumes "js_less (Fin 0) totalWidth" and "js_less (Fin 0) totalTime"
  shows "timeOption totalWidth totalTime =
           (case find (fits totalWidth totalTime)
                   [Fin 100, Fin 500, Fin 1000, Fin 5000, Fin 10000, Fin 30000, Fin 60000] of
              Some t \<Rightarrow> t
            | None \<Rightarrow> Fin 1) \<and>
         (\<forall>u\<in>set [Fin 100, Fin 500, Fin 1000, Fin 5000, Fin 10000, Fin 30000, Fin 60000].
            fits totalWidth totalTime u \<longrightarrow>
              fits totalWidth totalTime (timeOption totalWidth totalTime) \<and>
              js_le (timeOption totalWidth totalTime) u) \<and>
         (timeOption totalWidth totalTime \<in>
            set [Fin 100, Fin 500, Fin 1000, Fin 5000, Fin 10000, Fin 30000, Fin 60000] \<or>
          timeOption totalWidth totalTime = Fin 1)"
proof (intro conjI ballI impI)
  show "timeOption totalWidth totalTime =
          (case find (fits totalWidth totalTime)
                  [Fin 100, Fin 500, Fin 1000, Fin 5000, Fin 10000, Fin 30000, Fin 60000] of
             Some t \<Rightarrow> t
           | None \<Rightarrow> Fin 1)"
    using timeOption_find [of totalWidth totalTime] by (simp only: TIME_OPTIONS_eq)
next
  fix u
  assume u: "u \<in> set [Fin 100, Fin 500, Fin 1000, Fin 5000, Fin 10000, Fin 30000, Fin 60000]"
    and fu: "fits totalWidth totalTime u"
  from u have u': "u \<in> set TIME_OPTIONS" by (simp only: TIME_OPTIONS_eq)
  have "sorted_wrt js_less TIME_OPTIONS"
    using options_ascending by (simp only: TIME_OPTIONS_eq)
  from find_sorted_least [of js_less TIME_OPTIONS u "fits totalWidth totalTime"] this u' fu
  obtain t where t: "find (fits totalWidth totalTime) TIME_OPTIONS = Some t"
    and tu: "t = u \<or> js_less t u" by blast
  from t have sel: "timeOption totalWidth totalTime = t"
    by (simp add: timeOption_find)
  from t show "fits totalWidth totalTime (timeOption totalWidth totalTime)"
    using find_fits [OF t] sel by simp
  from tu show "js_le (timeOption totalWidth totalTime) u"
    using sel option_le_refl [OF u'] js_less_le by blast
next
  show "timeOption totalWidth totalTime \<in>
          set [Fin 100, Fin 500, Fin 1000, Fin 5000, Fin 10000, Fin 30000, Fin 60000] \<or>
        timeOption totalWidth totalTime = Fin 1"
  proof (cases "find (fits totalWidth totalTime) TIME_OPTIONS")
    case None
    then show ?thesis by (simp add: timeOption_find)
  next
    case (Some t)
    then have "timeOption totalWidth totalTime \<in> set TIME_OPTIONS"
      using find_fits [OF Some] by (simp add: timeOption_find)
    then show ?thesis by (simp only: TIME_OPTIONS_eq) simp
  qed
qed

theorem first_fitting_option_witness:
  "js_less (Fin 0) (Fin 1000) \<and> js_less (Fin 0) (Fin 2000) \<and>
   find (fits (Fin 1000) (Fin 2000))
     [Fin 100, Fin 500, Fin 1000, Fin 5000, Fin 10000, Fin 30000, Fin 60000] = Some (Fin 500) \<and>
   timeOption (Fin 1000) (Fin 2000) = Fin 500 \<and>
   fits (Fin 1000) (Fin 2000) (Fin 5000) \<and>
   fits (Fin 1000) (Fin 2000) (timeOption (Fin 1000) (Fin 2000)) \<and>
   js_le (timeOption (Fin 1000) (Fin 2000)) (Fin 5000) \<and>
   timeOption (Fin 1000) (Fin 2000) \<in>
     set [Fin 100, Fin 500, Fin 1000, Fin 5000, Fin 10000, Fin 30000, Fin 60000]"
  using first_fitting_option [of "Fin 1000" "Fin 2000"]
  by (simp add: fits_def)

text \<open>
  C2. For a positive width and a positive duration, when no option of the list gives
  fewer columns than \<open>floor(totalWidth / 100)\<close> the selected interval is 1. For
  \<open>totalWidth = 100\<close> and \<open>totalTime = 100000\<close>: \<open>maxCols = 1\<close>, the options give
  1000, 200, 100, 20, 10, 3 and 1 columns, none below 1, the interval is 1 and
  \<open>numCols = 100000\<close>.
\<close>

theorem fallback_when_none_fits:
  "(js_less (Fin 0) totalWidth \<and> js_less (Fin 0) totalTime \<and>
    (\<forall>t\<in>set [Fin 100, Fin 500, Fin 1000, Fin 5000, Fin 10000, Fin 30000, Fin 60000].
       \<not> js_less (Math_floor (js_div totalTime t)) (Math_floor (js_div totalWidth (Fin 100))))
    \<longrightarrow> timeOption totalWidth totalTime = Fin 1) \<and>
   maxCols (Fin 100) = Fin 1 \<and>
   timeOptionCols (Fin 100000) =
     [Fin 1000, Fin 200, Fin 100, Fin 20, Fin 10, Fin 3, Fin 1] \<and>
   (\<forall>c\<in>set (timeOptionCols (Fin 100000)). \<not> js_less c (maxCols (Fin 100))) \<and>
   timeOption (Fin 100) (Fin 100000) = Fin 1 \<and>
   numCols (Fin 100) (Fin 100000) = Fin 100000"
proof (intro conjI impI)
  assume "js_less (Fin 0) totalWidth \<and> js_less (Fin 0) totalTime \<and>
    (\<forall>t\<in>set [Fin 100, Fin 500, Fin 1000, Fin 5000, Fin 10000, Fin 30000, Fin 60000].
       \<not> js_less (Math_floor (js_div totalTime t)) (Math_floor (js_div totalWidth (Fin 100))))"
  then have "\<forall>t\<in>set TIME_OPTIONS. \<not> fits totalWidth totalTime t"
    unfolding fits_def TIME_OPTIONS_eq by blast
  then have "find (fits totalWidth totalTime) TIME_OPTIONS = None"
    by (simp only: find_None_none)
  then show "timeOption totalWidth totalTime = Fin 1"
    by (simp add: timeOption_find)
qed (simp_all add: GridLines_eval)

theorem fallback_when_none_fits_witness:
  "js_less (Fin 0) (Fin 100) \<and> js_less (Fin 0) (Fin 100000) \<and>
   find (fits (Fin 100) (Fin 100000))
     [Fin 100, Fin 500, Fin 1000, Fin 5000, Fin 10000, Fin 30000, Fin 60000] = None \<and>
   timeOption (Fin 100) (Fin 100000) = Fin 1"
  using fallback_when_none_fits [of "Fin 100" "Fin 100000"]
  by (simp add: fits_def)

text \<open>
  C3. For a positive width and a positive duration, whenever the selected interval is
  not the fallback 1, the number of rendered columns \<open>floor(totalTime / timeOption)\<close>
  is strictly less than \<open>floor(totalWidth / 100)\<close>.
\<close>

theorem chosen_option_fits:
  assumes "js_less (Fin 0) totalWidth" and "js_less (Fin 0) totalTime"
    and "timeOption totalWidth totalTime \<noteq> Fin 1"
  shows "numCols totalWidth totalTime =
           Math_floor (js_div totalTime (timeOption totalWidth totalTime)) \<and>
         js_less (numCols totalWidth totalTime) (Math_floor (js_div totalWidth (Fin 100)))"
proof (cases "find (fits totalWidth totalTime) TIME_OPTIONS")
  case None
  with assms(3) show ?thesis by (simp add: timeOption_find)
next
  case (Some t)
  then have "fits totalWidth totalTime t" by (simp add: find_fits)
  with Some show ?thesis
    by (simp add: numCols_def timeOption_find fits_def)
qed

theorem chosen_option_fits_witness:
  "js_less (Fin 0) (Fin 1000) \<and> js_less (Fin 0) (Fin 2000) \<and>
   timeOption (Fin 1000) (Fin 2000) = Fin 500 \<and>
   numCols (Fin 1000) (Fin 2000) = Fin 4 \<and>
   Math_floor (js_div (Fin 1000) (Fin 100)) = Fin 10 \<and>
   js_less (numCols (Fin 1000) (Fin 2000)) (Math_floor (js_div (Fin 1000) (Fin 100)))"
proof -
  have sel: "timeOption (Fin 1000) (Fin 2000) = Fin 500"
    by (simp add: GridLines_eval)
  have n: "numCols (Fin 1000) (Fin 2000) = Fin 4"
    by (simp add: GridLines_eval)
  have "timeOption (Fin 1000) (Fin 2000) \<noteq> Fin 1"
    by (simp add: sel)
  from chosen_option_fits [OF _ _ this] sel n show ?thesis by simp
qed

text \<open>
  C4 as stated: for a fixed positive duration and positive widths \<open>w1 \<le> w2\<close>, the
  interval selected at \<open>w2\<close> is at most the one selected at \<open>w1\<close>. It fails where the
  narrower width selects the fallback: at a duration of 100000 the width 100 holds one
  column, no option fits and the interval is 1, while the width 200 holds two columns
  and selects 60000.
\<close>

theorem width_monotone_counterexample:
  "js_less (Fin 0) (Fin 100) \<and> js_less (Fin 0) (Fin 200) \<and> js_le (Fin 100) (Fin 200) \<and>
   js_less (Fin 0) (Fin 100000) \<and>
   timeOption (Fin 100) (Fin 100000) = Fin 1 \<and>
   timeOption (Fin 200) (Fin 100000) = Fin 60000 \<and>
   \<not> js_le (timeOption (Fin 200) (Fin 100000)) (timeOption (Fin 100) (Fin 100000))"
  by (simp add: GridLines_eval)

text \<open>
  C4, amended: for a fixed positive duration and positive widths \<open>w1 \<le> w2\<close>, if the
  interval selected at \<open>w1\<close> is not the fallback 1 (an option of the list fits there),
  the interval selected at \<open>w2\<close> is at most the one selected at \<open>w1\<close>.
\<close>

theorem width_monotone_unless_fallback:
  assumes "js_less (Fin 0) w1" and "js_less (Fin 0) w2" and "js_le w1 w2"
    and "js_less (Fin 0) totalTime"
    and "timeOption w1 totalTime \<noteq> Fin 1"
  shows "js_le (timeOption w2 totalTime) (timeOption w1 totalTime)"
proof -
  let ?t1 = "timeOption w1 totalTime"
  from timeOption_from_list [OF assms(5)]
  have mem: "?t1 \<in> set TIME_OPTIONS" and f1: "fits w1 totalTime ?t1" by simp_all
  from fits_mono [OF assms(3) f1] have f2: "fits w2 totalTime ?t1" .
  have "sorted_wrt js_less TIME_OPTIONS"
    using options_ascending by (simp only: TIME_OPTIONS_eq)
  from find_sorted_least [of js_less TIME_OPTIONS ?t1 "fits w2 totalTime"] this mem f2
  obtain t2 where t2: "find (fits w2 totalTime) TIME_OPTIONS = Some t2"
    and le: "t2 = ?t1 \<or> js_less t2 ?t1" by blast
  from t2 have "timeOption w2 totalTime = t2" by (simp add: timeOption_find)
  with le show ?thesis
    using option_le_refl [OF mem] js_less_le by auto
qed

theorem width_monotone_unless_fallback_witness:
  "js_less (Fin 0) (Fin 1000) \<and> js_less (Fin 0) (Fin 3000) \<and> js_le (Fin 1000) (Fin 3000) \<and>
   js_less (Fin 0) (Fin 2000) \<and>
   timeOption (Fin 1000) (Fin 2000) = Fin 500 \<and>
   timeOption (Fin 3000) (Fin 2000) = Fin 100 \<and>
   js_le (timeOption (Fin 3000) (Fin 2000)) (timeOption (Fin 1000) (Fin 2000))"
proof -
  have sel: "timeOption (Fin 1000) (Fin 2000) = Fin 500"
    "timeOption (Fin 3000) (Fin 2000) = Fin 100"
    by (simp_all add: GridLines_eval)
  have "timeOption (Fin 1000) (Fin 2000) \<noteq> Fin 1"
    by (simp add: sel)
  from width_monotone_unless_fallback [of "Fin 1000" "Fin 3000" "Fin 2000", OF _ _ _ _ this]
  show ?thesis by (simp add: sel)
qed

section \<open>The rendered columns\<close>

text \<open>
  C7 as stated: for every positive width and positive duration the output holds
  \<open>numCols = floor(totalTime / timeOption)\<close> lines. It fails where \<open>numCols\<close> exceeds
  the greatest array length \<open>2^32 - 1\<close>: for a width of 50 and a duration of
  5000000000 nothing fits, the interval is 1, \<open>numCols\<close> is 5000000000 and
  \<^verbatim>\<open>Array(numCols)\<close> raises \<^verbatim>\<open>RangeError\<close>, so nothing is rendered.
\<close>

theorem renders_every_tick_counterexample:
  "js_less (Fin 0) (Fin 50) \<and> js_less (Fin 0) (Fin 5000000000) \<and>
   timeOption (Fin 50) (Fin 5000000000) = Fin 1 \<and>
   numCols (Fin 50) (Fin 5000000000) = Fin 5000000000 \<and>
   GridLines (Fin 50) (Fin 5000000000) = Inl RangeError"
  by (simp add: GridLines_eval)

text \<open>
  C7, amended: for a positive width and a positive duration with
  \<open>numCols = floor(totalTime / timeOption)\<close> at most \<open>2^32 - 1\<close>, the component renders
  \<open>numCols\<close> columns, where \<open>widthPerCol = (timeOption / totalTime) * totalWidth\<close>; for
  \<open>i\<close> from 1 to \<open>numCols\<close> the \<open>i\<close>-th line is at \<open>i * widthPerCol\<close>, its label is the
  number \<open>i * timeOption\<close> followed by \<^verbatim>\<open>ms\<close>, and the label is 4 pixels to the right
  of the line.
\<close>

theorem renders_every_tick:
  assumes "js_less (Fin 0) totalWidth" and "js_less (Fin 0) totalTime"
    and "js_le (numCols totalWidth totalTime) (Fin 4294967295)"
  shows "\<exists>cols.
           GridLines totalWidth totalTime = Inr cols \<and>
           numCols totalWidth totalTime =
             Math_floor (js_div totalTime (timeOption totalWidth totalTime)) \<and>
           numCols totalWidth totalTime = Fin (real (length cols)) \<and>
           widthPerCol totalWidth totalTime =
             js_mul (js_div (timeOption totalWidth totalTime) totalTime) totalWidth \<and>
           (\<forall>i\<in>{1..length cols}.
              line_left (cols ! (i - 1)) =
                js_mul (Fin (real i)) (widthPerCol totalWidth totalTime) \<and>
              label_value (cols ! (i - 1)) =
                js_mul (Fin (real i)) (timeOption totalWidth totalTime) \<and>
              label_unit (cols ! (i - 1)) = ''ms'' \<and>
              label_left (cols ! (i - 1)) = js_add (line_left (cols ! (i - 1))) (Fin 4))"
proof -
  obtain t where t: "timeOption totalWidth totalTime = Fin t" and tpos: "0 < t"
    using timeOption_positive by blast
  from assms(2,3) obtain d where d: "totalTime = Fin d" and dpos: "0 < d"
    by (cases rule: positive_cases) (simp_all add: numCols_infinite)
  define n where "n = nat \<lfloor>d / t\<rfloor>"
  from numCols_finite [of totalWidth d t] t tpos dpos d
  have n: "numCols totalWidth totalTime = Fin (real n)" by (simp add: n_def)
  with assms(3) have "n \<le> 4294967295" by simp
  from GridLines_length [OF n this]
  have g: "GridLines totalWidth totalTime =
    Inr (map (render_column totalWidth totalTime) [0..<n])" .
  have "line_left (map (render_column totalWidth totalTime) [0..<n] ! (i - 1)) =
        js_mul (Fin (real i)) (widthPerCol totalWidth totalTime) \<and>
      label_value (map (render_column totalWidth totalTime) [0..<n] ! (i - 1)) =
        js_mul (Fin (real i)) (timeOption totalWidth totalTime) \<and>
      label_unit (map (render_column totalWidth totalTime) [0..<n] ! (i - 1)) = ''ms'' \<and>
      label_left (map (render_column totalWidth totalTime) [0..<n] ! (i - 1)) =
        js_add (line_left (map (render_column totalWidth totalTime) [0..<n] ! (i - 1))) (Fin 4)"
    if "i \<in> {1..n}" for i
  proof -
    from that have "1 \<le> i" and "i \<le> n" by simp_all
    note nth = render_column_nth [OF this, of totalWidth totalTime]
    show ?thesis unfolding nth by simp
  qed
  then have "\<forall>i\<in>{1..n}.
      line_left (map (render_column totalWidth totalTime) [0..<n] ! (i - 1)) =
        js_mul (Fin (real i)) (widthPerCol totalWidth totalTime) \<and>
      label_value (map (render_column totalWidth totalTime) [0..<n] ! (i - 1)) =
        js_mul (Fin (real i)) (timeOption totalWidth totalTime) \<and>
      label_unit (map (render_column totalWidth totalTime) [0..<n] ! (i - 1)) = ''ms'' \<and>
      label_left (map (render_column totalWidth totalTime) [0..<n] ! (i - 1)) =
        js_add (line_left (map (render_column totalWidth totalTime) [0..<n] ! (i - 1))) (Fin 4)"
    by blast
  with g n show ?thesis
    by (simp add: numCols_def widthPerCol_def)
qed

theorem renders_every_tick_witness:
  "js_less (Fin 0) (Fin 1000) \<and> js_less (Fin 0) (Fin 2000) \<and>
   js_le (numCols (Fin 1000) (Fin 2000)) (Fin 4294967295) \<and>
   GridLines (Fin 1000) (Fin 2000) =
     Inr [\<lparr>line_left = Fin 250, label_left = Fin 254, label_value = Fin 500,
            label_unit = ''ms''\<rparr>,
          \<lparr>line_left = Fin 500, label_left = Fin 504, label_value = Fin 1000,
            label_unit = ''ms''\<rparr>,
          \<lparr>line_left = Fin 750, label_left = Fin 754, label_value = Fin 1500,
            label_unit = ''ms''\<rparr>,
          \<lparr>line_left = Fin 1000, label_left = Fin 1004, label_value = Fin 2000,
            label_unit = ''ms''\<rparr>]"
proof -
  have n: "numCols (Fin 1000) (Fin 2000) = Fin 4"
    by (simp add: GridLines_eval)
  have sel: "timeOption (Fin 1000) (Fin 2000) = Fin 500"
    by (simp add: GridLines_eval)
  have w: "widthPerCol (Fin 1000) (Fin 2000) = Fin 250"
    by (simp add: GridLines_eval)
  have u: "[0..<4] = [0, 1, 2, 3]"
    by (simp add: upt_rec)
  have g: "GridLines (Fin 1000) (Fin 2000) =
     Inr (map (render_column (Fin 1000) (Fin 2000)) [0..<4])"
    by (simp add: GridLines_def Array_js_def n)
  from renders_every_tick [of "Fin 1000" "Fin 2000"]
  show ?thesis by (simp add: g n u render_column_def sel w)
qed

section \<open>Negative props\<close>

text \<open>
  C6 as stated: for a negative width or a negative duration the component does not
  crash and clamps to zero columns. It fails both ways. For a width of 500 and a
  duration of \<open>-50\<close> the first option gives \<open>floor(-0.5) = -1 < 5\<close> columns and is
  selected, \<open>numCols\<close> is \<open>-1\<close> and \<^verbatim>\<open>Array(-1)\<close> raises \<^verbatim>\<open>RangeError\<close>. For a width of
  \<open>-100\<close> and a duration of 5 nothing fits, the interval is 1, and five columns are
  rendered, at negative offsets.
\<close>

theorem negative_props_counterexample:
  "js_less (Fin (- 50)) (Fin 0) \<and>
   numCols (Fin 500) (Fin (- 50)) = Fin (- 1) \<and>
   GridLines (Fin 500) (Fin (- 50)) = Inl RangeError \<and>
   js_less (Fin (- 100)) (Fin 0) \<and>
   numCols (Fin (- 100)) (Fin 5) = Fin 5 \<and>
   map_sum id (map line_left) (GridLines (Fin (- 100)) (Fin 5)) =
     Inr [Fin (- 20), Fin (- 40), Fin (- 60), Fin (- 80), Fin (- 100)]"
proof -
  have u: "[0..<5] = [0, 1, 2, 3, 4]"
    by (simp add: upt_rec)
  have n: "numCols (Fin (- 100)) (Fin 5) = Fin 5"
    by (simp add: GridLines_eval)
  have w: "widthPerCol (Fin (- 100)) (Fin 5) = Fin (- 20)"
    by (simp add: GridLines_eval)
  have g: "GridLines (Fin (- 100)) (Fin 5) =
     Inr (map (render_column (Fin (- 100)) (Fin 5)) [0..<5])"
    by (simp add: GridLines_def Array_js_def n)
  have "GridLines (Fin 500) (Fin (- 50)) = Inl RangeError"
    "numCols (Fin 500) (Fin (- 50)) = Fin (- 1)"
    by (simp_all add: GridLines_eval)
  then show ?thesis by (simp add: g n u w render_column_def)
qed

text \<open>
  C6, amended: for every duration of at most \<open>-2^-1022\<close> (every negative duration
  whose magnitude is a normal number, and minus infinity), whatever the width, the
  component raises \<^verbatim>\<open>RangeError\<close>, because \<open>numCols\<close> is negative. For every negative
  width and every duration \<open>d\<close> with \<open>0 \<le> d < 2^32\<close> it does not raise: it selects the
  fallback interval 1 and renders \<open>floor(d)\<close> columns, which is no column exactly when
  \<open>d < 1\<close>.
\<close>

theorem negative_props:
  "(js_le totalTime (Fin (- (1 / 2 ^ 1022))) \<longrightarrow>
      GridLines totalWidth totalTime = Inl RangeError) \<and>
   (js_less totalWidth (Fin 0) \<and> 0 \<le> d \<and> d < 4294967296 \<longrightarrow>
      timeOption totalWidth (Fin d) = Fin 1 \<and>
      numCols totalWidth (Fin d) = Fin (real (nat \<lfloor>d\<rfloor>)) \<and>
      (\<exists>cols. GridLines totalWidth (Fin d) = Inr cols \<and> length cols = nat \<lfloor>d\<rfloor> \<and>
              (cols = [] \<longleftrightarrow> d < 1)))"
proof (intro conjI impI)
  assume "js_le totalTime (Fin (- (1 / 2 ^ 1022)))"
  then show "GridLines totalWidth totalTime = Inl RangeError"
    by (rule negative_time_raises)
next
  assume a: "js_less totalWidth (Fin 0) \<and> 0 \<le> d \<and> d < 4294967296"
  then show sel: "timeOption totalWidth (Fin d) = Fin 1"
    by (simp add: negative_width_fallback)
  from numCols_finite [of totalWidth d 1] sel a
  show n: "numCols totalWidth (Fin d) = Fin (real (nat \<lfloor>d\<rfloor>))" by simp
  from a have "\<lfloor>d\<rfloor> < 4294967296" by (simp add: floor_less_iff)
  then have "nat \<lfloor>d\<rfloor> \<le> 4294967295" by arith
  from GridLines_length [OF n this]
  have g: "GridLines totalWidth (Fin d) =
    Inr (map (render_column totalWidth (Fin d)) [0..<nat \<lfloor>d\<rfloor>])" .
  from a have "nat \<lfloor>d\<rfloor> = 0 \<longleftrightarrow> d < 1"
    by (simp add: floor_le_iff)
  with g show "\<exists>cols. GridLines totalWidth (Fin d) = Inr cols \<and> length cols = nat \<lfloor>d\<rfloor> \<and>
              (cols = [] \<longleftrightarrow> d < 1)"
    by simp
qed

theorem negative_props_witness:
  "js_le (Fin (- 2000)) (Fin (- (1 / 2 ^ 1022))) \<and>
   GridLines (Fin (- 250)) (Fin (- 2000)) = Inl RangeError \<and>
   js_less (Fin (- 250)) (Fin 0) \<and> (0::real) \<le> 3 \<and> (3::real) < 4294967296 \<and>
   timeOption (Fin (- 250)) (Fin 3) = Fin 1 \<and>
   numCols (Fin (- 250)) (Fin 3) = Fin 3 \<and>
   map_sum id length (GridLines (Fin (- 250)) (Fin 3)) = Inr 3"
proof -
  have b: "js_le (Fin (- 2000)) (Fin (- (1 / 2 ^ 1022)))"
  proof -
    have "(1::real) / 2 ^ 1022 \<le> 1" by simp
    then show ?thesis by simp
  qed
  from negative_props [of "Fin (- 2000)" "Fin (- 250)" 3] b
  have "GridLines (Fin (- 250)) (Fin (- 2000)) = Inl RangeError"
    and "timeOption (Fin (- 250)) (Fin 3) = Fin 1"
    and "numCols (Fin (- 250)) (Fin 3) = Fin 3"
    and "\<exists>cols. GridLines (Fin (- 250)) (Fin 3) = Inr cols \<and> length cols = 3"
    by auto
  with b show ?thesis by auto
qed

end
